theory Spec2Isabelle
  imports Main
begin

section \<open>The AniList client of the title informer bot\<close>

text \<open>
  A shallow embedding of \<^verbatim>\<open>src/app/services/title/anilist/anilist_api.py\<close> (class
  \<^verbatim>\<open>AnilistApi\<close>) and of the two result classes of
  \<^verbatim>\<open>src/app/services/title/anilist/schemas/title.py\<close>.

  Exceptions are values of the type \<open>error\<close>; a coroutine that may raise returns
  \<open>error + 'a\<close> with \<open>Inl\<close> for the exception. The client's only mutable state is its
  \<^verbatim>\<open>_session\<close> attribute, a reference to a session object that other code may hold
  and close as well, so session objects live in an explicit heap and the attribute
  holds an address. The upstream server is a parameter \<open>post\<close> of every query
  operation: it maps the request sent to the response received (or to a transport
  failure).
\<close>

subsection \<open>Exceptions\<close>

text \<open>
  \<^verbatim>\<open>TitleNotFound\<close> and \<^verbatim>\<open>ServerError\<close> are the two exceptions the client raises on
  purpose (both carry a message). The others are the Python run-time and library
  exceptions that the code lets through: a missing dictionary key, a subscript or an
  iteration on a value that does not support it, an index out of range, an attribute
  read on \<^verbatim>\<open>None\<close>, a rejected constructor argument, a body that is not JSON, a
  failed transport.
\<close>

datatype error =
    TitleNotFound string
  | ServerError string
  | KeyError string
  | TypeError
  | IndexError
  | AttributeError
  | ValidationError
  | JSONDecodeError
  | ClientConnectionError

fun typed_error :: "error \<Rightarrow> bool" where
  "typed_error (TitleNotFound m) = True"
| "typed_error (ServerError m) = True"
| "typed_error e = False"

definition and_then :: "error + 'a \<Rightarrow> ('a \<Rightarrow> error + 'b) \<Rightarrow> error + 'b" where
  \<comment> \<open>sequencing of two steps: the second runs only if the first did not raise\<close>
  "and_then m f = (case m of Inl e \<Rightarrow> Inl e | Inr v \<Rightarrow> f v)"

definition untyped :: "error + 'a \<Rightarrow> bool" where
  \<comment> \<open>the step returns, or raises an exception that is not one of the client's two\<close>
  "untyped m = (case m of Inl e \<Rightarrow> \<not> typed_error e | Inr v \<Rightarrow> True)"

subsection \<open>Decoded JSON\<close>

text \<open>
  What \<^verbatim>\<open>response.json()\<close> returns: \<^verbatim>\<open>None\<close>, a bool, an int, a float, a str, a list or
  a dict with string keys. A dict is an association list (of distinct keys) read with
  \<open>map_of\<close>.

  A float is represented by the three things the client's code paths can observe of it:
  its truth value (false for zero only), what \<^verbatim>\<open>int()\<close> makes of it (the truncation;
  \<open>None\<close> when it raises, as it does for nan and the infinities), and what \<^verbatim>\<open>str()\<close>
  makes of it. Every Python float is one such triple, so a statement about all triples
  covers all floats.
\<close>

record py_float =
  float_truth :: bool
  float_int :: "int option"
  float_str :: string

datatype json_value =
    JNull
  | JBool bool
  | JInt int
  | JFloat py_float
  | JStr string
  | JList "json_value list"
  | JObj "(string \<times> json_value) list"

fun subscript :: "json_value \<Rightarrow> string \<Rightarrow> error + json_value" where
  \<comment> \<open>Python's \<^verbatim>\<open>x[k]\<close> for a string key \<open>k\<close>\<close>
  "subscript (JObj kvs) k = (case map_of kvs k of None \<Rightarrow> Inl (KeyError k) | Some v \<Rightarrow> Inr v)"
| "subscript x k = Inl TypeError"

fun truthy :: "json_value \<Rightarrow> bool" where
  \<comment> \<open>Python's truth value of \<open>x\<close>, as tested by \<^verbatim>\<open>not x\<close>\<close>
  "truthy JNull = False"
| "truthy (JBool b) = b"
| "truthy (JInt n) = (n \<noteq> 0)"
| "truthy (JFloat f) = float_truth f"
| "truthy (JStr s) = (s \<noteq> [])"
| "truthy (JList xs) = (xs \<noteq> [])"
| "truthy (JObj kvs) = (kvs \<noteq> [])"

fun index0 :: "json_value \<Rightarrow> error + json_value" where
  \<comment> \<open>Python's \<^verbatim>\<open>x[0]\<close>\<close>
  "index0 (JList []) = Inl IndexError"
| "index0 (JList (x # xs)) = Inr x"
| "index0 (JStr []) = Inl IndexError"
| "index0 (JStr (c # cs)) = Inr (JStr [c])"
| "index0 (JObj kvs) = Inl (KeyError ''0'')"
| "index0 x = Inl TypeError"

fun iterate :: "json_value \<Rightarrow> error + json_value list" where
  \<comment> \<open>the items a \<^verbatim>\<open>for\<close> loop over \<open>x\<close> visits: the elements of a list, the keys of a
      dict, the characters of a str\<close>
  "iterate (JList xs) = Inr xs"
| "iterate (JObj kvs) = Inr (map (\<lambda>kv. JStr (fst kv)) kvs)"
| "iterate (JStr s) = Inr (map (\<lambda>c. JStr [c]) s)"
| "iterate x = Inl TypeError"

subsection \<open>HTML escaping\<close>

text \<open>
  Modelled from the spec: \<^verbatim>\<open>escape_html_tags_or_none\<close> of
  \<^verbatim>\<open>app/text_utils/html_formatting.py\<close>, which is imported by the client and is not
  among the sources. The spec says that text from the external source is HTML-escaped,
  so that markup-significant characters such as those of \<^verbatim>\<open><b>\<close> do not act as markup,
  and that the name and description fields may be absent. The model replaces \<^verbatim>\<open>&\<close>,
  \<^verbatim>\<open><\<close> and \<^verbatim>\<open>>\<close> by their entities, maps \<^verbatim>\<open>None\<close> to \<^verbatim>\<open>None\<close>, and raises on an
  argument that is neither a str nor \<^verbatim>\<open>None\<close>.
\<close>

fun escape_char :: "char \<Rightarrow> string" where
  \<comment> \<open>Modelled from the spec: the entity that replaces a markup-significant character\<close>
  "escape_char c =
     (if c = CHR ''&'' then ''&amp;''
      else if c = CHR ''<'' then ''&lt;''
      else if c = CHR ''>'' then ''&gt;''
      else [c])"

definition escape_html_tags :: "string \<Rightarrow> string" where
  \<comment> \<open>Modelled from the spec: HTML-escaping of a text, character by character\<close>
  "escape_html_tags s = concat (map escape_char s)"

fun escape_html_tags_or_none :: "json_value \<Rightarrow> error + json_value" where
  \<comment> \<open>Modelled from the spec: the escaped text, or \<^verbatim>\<open>None\<close> for \<^verbatim>\<open>None\<close>\<close>
  "escape_html_tags_or_none JNull = Inr JNull"
| "escape_html_tags_or_none (JStr s) = Inr (JStr (escape_html_tags s))"
| "escape_html_tags_or_none x = Inl TypeError"

subsection \<open>The result classes\<close>

text \<open>
  \<^verbatim>\<open>TitlePreview\<close> and \<^verbatim>\<open>TitleRelation\<close> (schemas/title.py). \<^verbatim>\<open>TitleRelation\<close> declares the
  nine fields of \<^verbatim>\<open>TitlePreview\<close> again, with the same names and types, and adds
  \<^verbatim>\<open>relation_type\<close>; the model writes it as an extension of the first record.
  The field \<^verbatim>\<open>id\<close> is \<open>id_field\<close> here, since \<open>id\<close> is HOL's identity function.
\<close>

record TitlePreview =
  id_field :: int
  english_name :: "string option"
  romaji_name :: "string option"
  native_name :: "string option"
  title_format :: string
  url :: string
  banner_image_url :: "string option"
  description :: "string option"
  genres :: "string list"

record TitleRelation = TitlePreview +
  relation_type :: string

text \<open>
  Both classes are pydantic models: the constructor validates every keyword argument
  against the declared type of its field and raises a validation error when an argument
  cannot be made to fit. pydantic is a library, not code of this repository; the model
  follows the validators of pydantic 1.x:
  \<^item> an \<^verbatim>\<open>int\<close> field returns an int unchanged and otherwise tries \<^verbatim>\<open>int(v)\<close>, so that
    \<^verbatim>\<open>True\<close> becomes 1, a float is truncated and a str is parsed;
  \<^item> a \<^verbatim>\<open>str\<close> field returns a str unchanged and turns an int, a bool or a float into
    \<^verbatim>\<open>str(v)\<close>;
  \<^item> \<^verbatim>\<open>None\<close> is accepted by an \<^verbatim>\<open>Optional\<close> field only;
  \<^item> a \<^verbatim>\<open>list[str]\<close> field takes a list and validates each element as a str.

  \<^verbatim>\<open>python_int\<close> is Python's \<^verbatim>\<open>int(s)\<close> for a str \<open>s\<close>: white space around the number,
  one optional sign, decimal digits with single underscores between them, and at most
  4300 digits (Python's default limit on conversions between int and str). The text is
  read as ASCII: the digits and white space of other scripts, which Python takes as
  well, have no characters in the model. \<^verbatim>\<open>python_str\<close> is \<^verbatim>\<open>str(n)\<close> for an int, under
  the same limit.
\<close>

definition py_isspace :: "char \<Rightarrow> bool" where
  \<comment> \<open>blank, tab, line feed, vertical tab, form feed, carriage return\<close>
  "py_isspace c = (c \<in> set [CHR 0x20, CHR 0x09, CHR 0x0A, CHR 0x0B, CHR 0x0C, CHR 0x0D])"

definition digit_value :: "char \<Rightarrow> nat option" where
  "digit_value c =
     map_of [(CHR ''0'', 0), (CHR ''1'', 1), (CHR ''2'', 2), (CHR ''3'', 3), (CHR ''4'', 4),
             (CHR ''5'', 5), (CHR ''6'', 6), (CHR ''7'', 7), (CHR ''8'', 8), (CHR ''9'', 9)] c"

fun scan_digits :: "string \<Rightarrow> nat \<Rightarrow> nat \<Rightarrow> bool \<Rightarrow> (nat \<times> nat) option" where
  \<comment> \<open>the digits of a number, read left to right: the value and the count of the digits
      read so far, and whether the character before was an underscore\<close>
  "scan_digits [] v n prev_underscore = (if prev_underscore then None else Some (v, n))"
| "scan_digits (c # cs) v n prev_underscore =
     (if c = CHR ''_'' then (if prev_underscore then None else scan_digits cs v n True)
      else case digit_value c of
             None \<Rightarrow> None
           | Some d \<Rightarrow> scan_digits cs (10 * v + d) (Suc n) False)"

definition python_int :: "string \<Rightarrow> int option" where
  \<comment> \<open>\<^verbatim>\<open>int(s)\<close>; \<open>None\<close> when it raises \<^verbatim>\<open>ValueError\<close>\<close>
  "python_int s =
     (let t = dropWhile py_isspace s;
          negative = (case t of [] \<Rightarrow> False | c # r \<Rightarrow> c = CHR ''-'');
          u = (case t of [] \<Rightarrow> [] | c # r \<Rightarrow> if c = CHR ''+'' \<or> c = CHR ''-'' then r else t);
          body = rev (dropWhile py_isspace (rev u))
      in case body of
           [] \<Rightarrow> None
         | c # r \<Rightarrow>
             if c = CHR ''_'' then None
             else case scan_digits body 0 0 False of
                    None \<Rightarrow> None
                  | Some (v, n) \<Rightarrow>
                      if n > 4300 then None
                      else Some (if negative then - int v else int v))"

fun digits_of :: "nat \<Rightarrow> string" where
  "digits_of n =
     (if n < 10 then [''0123456789'' ! n]
      else digits_of (n div 10) @ [''0123456789'' ! (n mod 10)])"

definition python_str :: "int \<Rightarrow> string option" where
  \<comment> \<open>\<^verbatim>\<open>str(n)\<close>; \<open>None\<close> when it raises \<^verbatim>\<open>ValueError\<close>\<close>
  "python_str n =
     (let ds = digits_of (nat \<bar>n\<bar>)
      in if length ds > 4300 then None
         else Some (if n < 0 then CHR ''-'' # ds else ds))"

fun validate_int :: "json_value \<Rightarrow> error + int" where
  \<comment> \<open>a field declared \<^verbatim>\<open>int\<close>\<close>
  "validate_int (JInt n) = Inr n"
| "validate_int (JBool b) = Inr (if b then 1 else 0)"
| "validate_int (JFloat f) =
     (case float_int f of None \<Rightarrow> Inl ValidationError | Some n \<Rightarrow> Inr n)"
| "validate_int (JStr s) =
     (case python_int s of None \<Rightarrow> Inl ValidationError | Some n \<Rightarrow> Inr n)"
| "validate_int x = Inl ValidationError"

fun validate_str :: "json_value \<Rightarrow> error + string" where
  \<comment> \<open>a field declared \<^verbatim>\<open>str\<close>, and an element of a field declared \<^verbatim>\<open>list[str]\<close>\<close>
  "validate_str (JStr s) = Inr s"
| "validate_str (JInt n) =
     (case python_str n of None \<Rightarrow> Inl ValidationError | Some s \<Rightarrow> Inr s)"
| "validate_str (JBool b) = Inr (if b then ''True'' else ''False'')"
| "validate_str (JFloat f) = Inr (float_str f)"
| "validate_str x = Inl ValidationError"

fun validate_optional_str :: "json_value \<Rightarrow> error + string option" where
  \<comment> \<open>a field declared \<^verbatim>\<open>Optional[str]\<close>\<close>
  "validate_optional_str JNull = Inr None"
| "validate_optional_str x = and_then (validate_str x) (\<lambda>s. Inr (Some s))"

fun validate_strs :: "json_value list \<Rightarrow> error + string list" where
  "validate_strs [] = Inr []"
| "validate_strs (x # xs) =
     and_then (validate_str x) (\<lambda>s. and_then (validate_strs xs) (\<lambda>ss. Inr (s # ss)))"

fun validate_list_str :: "json_value \<Rightarrow> error + string list" where
  \<comment> \<open>a field declared \<^verbatim>\<open>list[str]\<close>\<close>
  "validate_list_str (JList xs) = validate_strs xs"
| "validate_list_str x = Inl ValidationError"

definition TitlePreview_init ::
  "json_value \<Rightarrow> json_value \<Rightarrow> json_value \<Rightarrow> json_value \<Rightarrow> json_value \<Rightarrow> json_value \<Rightarrow>
   json_value \<Rightarrow> json_value \<Rightarrow> json_value \<Rightarrow> error + TitlePreview" where
  "TitlePreview_init a_id a_english a_romaji a_native a_format a_url a_banner a_description a_genres =
     and_then (validate_int a_id) (\<lambda>v_id.
     and_then (validate_optional_str a_english) (\<lambda>v_english.
     and_then (validate_optional_str a_romaji) (\<lambda>v_romaji.
     and_then (validate_optional_str a_native) (\<lambda>v_native.
     and_then (validate_str a_format) (\<lambda>v_format.
     and_then (validate_str a_url) (\<lambda>v_url.
     and_then (validate_optional_str a_banner) (\<lambda>v_banner.
     and_then (validate_optional_str a_description) (\<lambda>v_description.
     and_then (validate_list_str a_genres) (\<lambda>v_genres.
     Inr \<lparr> id_field = v_id, english_name = v_english, romaji_name = v_romaji,
           native_name = v_native, title_format = v_format, url = v_url,
           banner_image_url = v_banner, description = v_description,
           genres = v_genres \<rparr>)))))))))"

definition TitleRelation_init ::
  "json_value \<Rightarrow> json_value \<Rightarrow> json_value \<Rightarrow> json_value \<Rightarrow> json_value \<Rightarrow> json_value \<Rightarrow>
   json_value \<Rightarrow> json_value \<Rightarrow> json_value \<Rightarrow> json_value \<Rightarrow> error + TitleRelation" where
  "TitleRelation_init a_id a_english a_romaji a_native a_format a_url a_banner a_description a_genres
       a_relation =
     and_then (validate_int a_id) (\<lambda>v_id.
     and_then (validate_optional_str a_english) (\<lambda>v_english.
     and_then (validate_optional_str a_romaji) (\<lambda>v_romaji.
     and_then (validate_optional_str a_native) (\<lambda>v_native.
     and_then (validate_str a_format) (\<lambda>v_format.
     and_then (validate_str a_url) (\<lambda>v_url.
     and_then (validate_optional_str a_banner) (\<lambda>v_banner.
     and_then (validate_optional_str a_description) (\<lambda>v_description.
     and_then (validate_list_str a_genres) (\<lambda>v_genres.
     and_then (validate_str a_relation) (\<lambda>v_relation.
     Inr \<lparr> id_field = v_id, english_name = v_english, romaji_name = v_romaji,
           native_name = v_native, title_format = v_format, url = v_url,
           banner_image_url = v_banner, description = v_description,
           genres = v_genres, relation_type = v_relation \<rparr>))))))))))"

subsection \<open>Sessions\<close>

text \<open>
  An aiohttp \<^verbatim>\<open>ClientSession\<close>, as far as the client looks at it: its \<^verbatim>\<open>closed\<close> flag.
  \<open>close_calls\<close> is a ghost field that counts the calls of the session's
  \<^verbatim>\<open>close()\<close>, so that "closed at most once" can be stated. The heap lists every
  session object created so far; an address is an index into it, and a new object
  gets the next index. \<open>session_attr\<close> is the attribute \<^verbatim>\<open>self._session\<close>.
\<close>

record ClientSession =
  closed :: bool
  close_calls :: nat

record AnilistApi =
  heap :: "ClientSession list"
  session_attr :: "nat option"

definition wf_state :: "AnilistApi \<Rightarrow> bool" where
  \<comment> \<open>a Python reference always points to an object\<close>
  "wf_state s = (case session_attr s of None \<Rightarrow> True | Some a \<Rightarrow> a < length (heap s))"

definition AnilistApi_init :: "ClientSession list \<Rightarrow> AnilistApi" where
  \<comment> \<open>\<^verbatim>\<open>__init__\<close>, in a program that has created the sessions \<open>h\<close> elsewhere\<close>
  "AnilistApi_init h = \<lparr> heap = h, session_attr = None \<rparr>"

definition get_new_session :: "AnilistApi \<Rightarrow> nat \<times> AnilistApi" where
  "get_new_session s =
     (length (heap s), s\<lparr> heap := heap s @ [\<lparr> closed = False, close_calls = 0 \<rparr>] \<rparr>)"

definition store_new_session :: "AnilistApi \<Rightarrow> nat \<times> AnilistApi" where
  \<comment> \<open>line 28 followed by line 29: \<^verbatim>\<open>self._session = self.get_new_session()\<close>,
      \<^verbatim>\<open>return self._session\<close>\<close>
  "store_new_session s =
     (case get_new_session s of (a, s') \<Rightarrow> (a, s'\<lparr> session_attr := Some a \<rparr>))"

definition session :: "AnilistApi \<Rightarrow> nat \<times> AnilistApi" where
  \<comment> \<open>the property \<^verbatim>\<open>session\<close>: the session returned and the state afterwards\<close>
  "session s =
     (case session_attr s of
        None \<Rightarrow> store_new_session s
      | Some a \<Rightarrow> if closed (heap s ! a) then store_new_session s else (a, s))"

definition ClientSession_close :: "nat \<Rightarrow> AnilistApi \<Rightarrow> AnilistApi" where
  \<comment> \<open>\<^verbatim>\<open>await session.close()\<close> on the object at address \<open>a\<close>, by the client or by
      any other holder of the reference\<close>
  "ClientSession_close a s =
     s\<lparr> heap := (heap s)[a := \<lparr> closed = True, close_calls = Suc (close_calls (heap s ! a)) \<rparr>] \<rparr>"

definition close :: "AnilistApi \<Rightarrow> AnilistApi" where
  "close s =
     (case session_attr s of
        None \<Rightarrow> s
      | Some a \<Rightarrow> if \<not> closed (heap s ! a) then ClientSession_close a s else s)"

fun accesses :: "nat \<Rightarrow> AnilistApi \<Rightarrow> nat list \<times> AnilistApi" where
  \<comment> \<open>\<open>n\<close> reads of the property in a row: the sessions returned, in order, and the
      state afterwards\<close>
  "accesses 0 s = ([], s)"
| "accesses (Suc n) s =
     (case session s of (a, s') \<Rightarrow> (case accesses n s' of (as, s'') \<Rightarrow> (a # as, s'')))"

subsection \<open>Requests and responses\<close>

text \<open>
  Modelled from the spec: \<^verbatim>\<open>TitleFormat\<close> of \<^verbatim>\<open>app/services/title/anilist/dto\<close>, which
  is not among the sources: an enumeration of format filters whose \<^verbatim>\<open>value\<close> is a
  fragment of query text.
\<close>

datatype TitleFormat = TitleFormat (format_value: string)

record request =
  req_url :: string
  req_query :: string
  req_variables :: "(string \<times> json_value) list"

text \<open>
  A response: \<^verbatim>\<open>status\<close>, the body as \<^verbatim>\<open>text()\<close> returns it, and what \<^verbatim>\<open>json()\<close>
  returns, \<open>None\<close> when it raises instead. Decoding is the library's work and is not
  modelled, so the two views of the body are two fields.
\<close>

record ClientResponse =
  status :: int
  body_text :: string
  body_json :: "json_value option"

type_synonym transport = "request \<Rightarrow> error + ClientResponse"

definition reply :: "ClientResponse \<Rightarrow> transport" where
  \<comment> \<open>an upstream that answers the request with \<open>response\<close>\<close>
  "reply response req = Inr response"

definition source_url :: string where
  "source_url = ''https://graphql.anilist.co''"

definition response_json :: "ClientResponse \<Rightarrow> error + json_value" where
  \<comment> \<open>\<^verbatim>\<open>await response.json()\<close>\<close>
  "response_json response =
     (case body_json response of None \<Rightarrow> Inl JSONDecodeError | Some result \<Rightarrow> Inr result)"

definition send_request_to_source ::
  "transport \<Rightarrow> string \<Rightarrow> (string \<times> json_value) list \<Rightarrow> AnilistApi \<Rightarrow>
   (error + ClientResponse) \<times> AnilistApi" where
  "send_request_to_source post query variables s =
     (case session s of (a, s') \<Rightarrow>
        (case post \<lparr> req_url = source_url, req_query = query, req_variables = variables \<rparr> of
           Inl e \<Rightarrow> (Inl e, s')
         | Inr response \<Rightarrow>
             if status response \<ge> 500 then (Inl (ServerError (body_text response)), s')
             else (Inr response, s')))"

subsection \<open>The query operations\<close>

text \<open>
  The query texts are those of the source with every run of white space written as
  one blank; the format filter is spliced in where the source has \<^verbatim>\<open>%s\<close>.
\<close>

definition preview_by_name_query :: "string \<Rightarrow> string" where
  "preview_by_name_query f =
     ''query ($search: String) { Media(search: $search, '' @ f @
     '') { id title { english romaji native } format siteUrl bannerImage description genres } }''"

definition preview_by_id_query :: "string \<Rightarrow> string" where
  "preview_by_id_query f =
     ''query ($id: Int) { Media(id: $id, '' @ f @
     '') { title { english romaji native } format siteUrl bannerImage description genres } }''"

definition preview_page_by_name_query :: "string \<Rightarrow> string" where
  "preview_page_by_name_query f =
     ''query ($page: Int, $search: String) { Page(page: $page, perPage: 1) { media(search: $search, '' @ f @
     '') { id title { english romaji native } format siteUrl bannerImage description genres } } }''"

definition relations_by_id_query :: string where
  "relations_by_id_query =
     ''query ($id: Int) { Media(id: $id) { relations { edges { node { id title { english romaji native } format siteUrl bannerImage description genres } relationType } } } }''"

definition preview_from :: "json_value \<Rightarrow> json_value \<Rightarrow> json_value \<Rightarrow> error + TitlePreview" where
  \<comment> \<open>The call \<^verbatim>\<open>TitlePreview(id=..., english_name=..., ...)\<close> once the argument for
      \<^verbatim>\<open>id\<close> has its value \<open>a_id\<close>: the other eight arguments are evaluated left to
      right from \<open>data\<close> and \<open>title\<close>, then the constructor runs. The text of these
      arguments is the same in lines 93-100, 143-150 and 198-205.\<close>
  "preview_from a_id data title =
     and_then (subscript title ''english'') (\<lambda>english.
     and_then (escape_html_tags_or_none english) (\<lambda>a_english.
     and_then (subscript title ''romaji'') (\<lambda>romaji.
     and_then (escape_html_tags_or_none romaji) (\<lambda>a_romaji.
     and_then (subscript title ''native'') (\<lambda>native.
     and_then (escape_html_tags_or_none native) (\<lambda>a_native.
     and_then (subscript data ''format'') (\<lambda>a_format.
     and_then (subscript data ''siteUrl'') (\<lambda>a_url.
     and_then (subscript data ''bannerImage'') (\<lambda>a_banner.
     and_then (subscript data ''description'') (\<lambda>raw_description.
     and_then (escape_html_tags_or_none raw_description) (\<lambda>a_description.
     and_then (subscript data ''genres'') (\<lambda>a_genres.
     TitlePreview_init a_id a_english a_romaji a_native a_format a_url a_banner
       a_description a_genres))))))))))))"

definition data_Media :: "json_value \<Rightarrow> error + json_value" where
  \<comment> \<open>\<^verbatim>\<open>result["data"]["Media"]\<close>, lines 88, 138 and 247\<close>
  "data_Media result = and_then (subscript result ''data'') (\<lambda>d. subscript d ''Media'')"

definition data_Page_media :: "json_value \<Rightarrow> error + json_value" where
  \<comment> \<open>\<^verbatim>\<open>result["data"]["Page"]["media"]\<close>, line 189\<close>
  "data_Page_media result =
     and_then (subscript result ''data'') (\<lambda>d.
     and_then (subscript d ''Page'') (\<lambda>p. subscript p ''media''))"

definition relation_edges :: "json_value \<Rightarrow> error + json_value" where
  \<comment> \<open>lines 247-249: \<^verbatim>\<open>result["data"]["Media"]["relations"]["edges"]\<close>\<close>
  "relation_edges result =
     and_then (data_Media result) (\<lambda>data.
     and_then (subscript data ''relations'') (\<lambda>relations. subscript relations ''edges''))"

definition preview_of :: "json_value \<Rightarrow> error + TitlePreview" where
  \<comment> \<open>The preview built from the media record \<open>data\<close>: \<^verbatim>\<open>title = data["title"]\<close>, then
      the constructor call with \<^verbatim>\<open>id=data["id"]\<close>. Lines 89-101, and again lines 194-206.\<close>
  "preview_of data =
     and_then (subscript data ''title'') (\<lambda>title.
     and_then (subscript data ''id'') (\<lambda>a_id.
     preview_from a_id data title))"

definition preview_by_name_result :: "ClientResponse \<Rightarrow> error + TitlePreview" where
  \<comment> \<open>lines 86-101\<close>
  "preview_by_name_result response =
     and_then (response_json response) (\<lambda>result.
     and_then (data_Media result) (\<lambda>data.
     preview_of data))"

definition title_preview_by_name ::
  "transport \<Rightarrow> string \<Rightarrow> TitleFormat option \<Rightarrow> AnilistApi \<Rightarrow> (error + TitlePreview) \<times> AnilistApi" where
  "title_preview_by_name post name title_format' s =
     (case title_format' of
        None \<Rightarrow> (Inl AttributeError, s)
      | Some tf \<Rightarrow>
          (case send_request_to_source post (preview_by_name_query (format_value tf))
                  [(''search'', JStr name)] s of
             (Inl e, s') \<Rightarrow> (Inl e, s')
           | (Inr response, s') \<Rightarrow>
               if status response = 404
               then (Inl (TitleNotFound ''Title with this name not found!''), s')
               else (preview_by_name_result response, s')))"

definition preview_by_id_result :: "int \<Rightarrow> ClientResponse \<Rightarrow> error + TitlePreview" where
  \<comment> \<open>lines 136-151: as lines 86-101, with \<^verbatim>\<open>id=title_id\<close>\<close>
  "preview_by_id_result title_id response =
     and_then (response_json response) (\<lambda>result.
     and_then (data_Media result) (\<lambda>data.
     and_then (subscript data ''title'') (\<lambda>title.
     preview_from (JInt title_id) data title)))"

definition title_preview_by_id ::
  "transport \<Rightarrow> int \<Rightarrow> TitleFormat option \<Rightarrow> AnilistApi \<Rightarrow> (error + TitlePreview) \<times> AnilistApi" where
  "title_preview_by_id post title_id title_format' s =
     (case title_format' of
        None \<Rightarrow> (Inl AttributeError, s)
      | Some tf \<Rightarrow>
          (case send_request_to_source post (preview_by_id_query (format_value tf))
                  [(''id'', JInt title_id)] s of
             (Inl e, s') \<Rightarrow> (Inl e, s')
           | (Inr response, s') \<Rightarrow>
               if status response = 404
               then (Inl (TitleNotFound ''Title with this name not found!''), s')
               else (preview_by_id_result title_id response, s')))"

definition preview_page_result :: "ClientResponse \<Rightarrow> error + TitlePreview" where
  \<comment> \<open>lines 187-206\<close>
  "preview_page_result response =
     and_then (response_json response) (\<lambda>result.
     and_then (data_Page_media result) (\<lambda>media.
     if \<not> truthy media then Inl (TitleNotFound ''Title not found!'')
     else and_then (index0 media) (\<lambda>data. preview_of data)))"

definition title_preview_page_by_name ::
  "transport \<Rightarrow> int \<Rightarrow> string \<Rightarrow> TitleFormat option \<Rightarrow> AnilistApi \<Rightarrow>
   (error + TitlePreview) \<times> AnilistApi" where
  "title_preview_page_by_name post page name title_format' s =
     (case title_format' of
        None \<Rightarrow> (Inl AttributeError, s)
      | Some tf \<Rightarrow>
          (case send_request_to_source post (preview_page_by_name_query (format_value tf))
                  [(''page'', JInt page), (''search'', JStr name)] s of
             (Inl e, s') \<Rightarrow> (Inl e, s')
           | (Inr response, s') \<Rightarrow> (preview_page_result response, s')))"

definition relation_of_edge :: "json_value \<Rightarrow> error + TitleRelation" where
  \<comment> \<open>the body of the loop, lines 253-268: the record appended for \<open>edge\<close>\<close>
  "relation_of_edge edge =
     and_then (subscript edge ''node'') (\<lambda>node.
     and_then (subscript node ''title'') (\<lambda>title.
     and_then (subscript node ''id'') (\<lambda>a_id.
     and_then (subscript title ''english'') (\<lambda>english.
     and_then (escape_html_tags_or_none english) (\<lambda>a_english.
     and_then (subscript title ''romaji'') (\<lambda>romaji.
     and_then (escape_html_tags_or_none romaji) (\<lambda>a_romaji.
     and_then (subscript title ''native'') (\<lambda>native.
     and_then (escape_html_tags_or_none native) (\<lambda>a_native.
     and_then (subscript node ''format'') (\<lambda>a_format.
     and_then (subscript node ''siteUrl'') (\<lambda>a_url.
     and_then (subscript node ''bannerImage'') (\<lambda>a_banner.
     and_then (subscript node ''description'') (\<lambda>a_description.
     and_then (subscript node ''genres'') (\<lambda>a_genres.
     and_then (subscript edge ''relationType'') (\<lambda>a_relation.
     TitleRelation_init a_id a_english a_romaji a_native a_format a_url a_banner
       a_description a_genres a_relation)))))))))))))))"

fun relations_loop :: "json_value list \<Rightarrow> TitleRelation list \<Rightarrow> error + TitleRelation list" where
  \<comment> \<open>\<^verbatim>\<open>for edge in edges: relations.append(...)\<close>, from the list \<open>relations\<close> built so far\<close>
  "relations_loop [] relations = Inr relations"
| "relations_loop (edge # edges) relations =
     and_then (relation_of_edge edge) (\<lambda>r. relations_loop edges (relations @ [r]))"

definition relations_result :: "ClientResponse \<Rightarrow> error + TitleRelation list" where
  \<comment> \<open>lines 245-270\<close>
  "relations_result response =
     and_then (response_json response) (\<lambda>result.
     and_then (relation_edges result) (\<lambda>edges.
     and_then (iterate edges) (\<lambda>items.
     relations_loop items [])))"

definition title_relations_by_id ::
  "transport \<Rightarrow> int \<Rightarrow> AnilistApi \<Rightarrow> (error + TitleRelation list) \<times> AnilistApi" where
  "title_relations_by_id post title_id s =
     (case send_request_to_source post relations_by_id_query [(''id'', JInt title_id)] s of
        (Inl e, s') \<Rightarrow> (Inl e, s')
      | (Inr response, s') \<Rightarrow>
          if status response = 404
          then (Inl (TitleNotFound ''Title with this id not found!''), s')
          else (relations_result response, s'))"

subsection \<open>Sample inputs\<close>

text \<open>Concrete requests and responses, on which the theorems below are evaluated.\<close>

definition example_format :: TitleFormat where
  "example_format = TitleFormat ''type: MANGA''"

definition example_media :: json_value where
  "example_media =
     JObj [(''id'', JInt 30002),
           (''title'', JObj [(''english'', JStr ''Berserk <Deluxe>''),
                            (''romaji'', JStr ''Berserk''),
                            (''native'', JNull)]),
           (''format'', JStr ''MANGA''),
           (''siteUrl'', JStr ''https://anilist.co/manga/30002''),
           (''bannerImage'', JNull),
           (''description'', JStr ''<i>Guts</i> & the Band of the Hawk''),
           (''genres'', JList [JStr ''Action'', JStr ''Drama''])]"

definition media_with_id :: "json_value \<Rightarrow> json_value" where
  \<comment> \<open>a media record as \<open>example_media\<close>, with \<open>a\<close> in its \<^verbatim>\<open>id\<close> field\<close>
  "media_with_id a =
     JObj [(''id'', a),
           (''title'', JObj [(''english'', JNull), (''romaji'', JStr ''Berserk''),
                            (''native'', JNull)]),
           (''format'', JStr ''MANGA''),
           (''siteUrl'', JStr ''https://anilist.co/manga/30002''),
           (''bannerImage'', JNull),
           (''description'', JNull),
           (''genres'', JList [])]"

definition example_edge :: json_value where
  "example_edge = JObj [(''node'', example_media), (''relationType'', JStr ''SEQUEL'')]"

definition example_side_story :: json_value where
  "example_side_story =
     JObj [(''node'',
            JObj [(''id'', JInt 41),
                  (''title'', JObj [(''english'', JNull), (''romaji'', JStr ''Gaiden''),
                                   (''native'', JNull)]),
                  (''format'', JStr ''ONE_SHOT''),
                  (''siteUrl'', JStr ''https://anilist.co/manga/41''),
                  (''bannerImage'', JNull),
                  (''description'', JNull),
                  (''genres'', JList [])]),
           (''relationType'', JStr ''SIDE_STORY'')]"

definition media_response :: "int \<Rightarrow> json_value \<Rightarrow> ClientResponse" where
  \<comment> \<open>a response with the given status whose body holds \<open>media\<close> at \<^verbatim>\<open>data.Media\<close>\<close>
  "media_response st media =
     \<lparr> status = st, body_text = ''body'',
       body_json = Some (JObj [(''data'', JObj [(''Media'', media)])]) \<rparr>"

definition page_response :: "int \<Rightarrow> json_value \<Rightarrow> ClientResponse" where
  \<comment> \<open>a response with the given status whose body holds \<open>media\<close> at \<^verbatim>\<open>data.Page.media\<close>\<close>
  "page_response st media =
     \<lparr> status = st, body_text = ''body'',
       body_json = Some (JObj [(''data'', JObj [(''Page'', JObj [(''media'', media)])])]) \<rparr>"

definition relations_response :: "int \<Rightarrow> json_value \<Rightarrow> ClientResponse" where
  \<comment> \<open>a response with the given status whose body holds \<open>edges\<close> at
      \<^verbatim>\<open>data.Media.relations.edges\<close>\<close>
  "relations_response st edges =
     media_response st (JObj [(''relations'', JObj [(''edges'', edges)])])"

definition bad_gateway :: ClientResponse where
  "bad_gateway = \<lparr> status = 502, body_text = ''Bad Gateway'', body_json = None \<rparr>"

definition fresh_client :: AnilistApi where
  \<comment> \<open>a client just constructed, in a program with no session object yet\<close>
  "fresh_client = AnilistApi_init []"

section \<open>Properties\<close>

subsection \<open>Sequencing and the kinds of failure\<close>

lemma and_then_Inl [simp]: "and_then (Inl e) f = Inl e"
  by (simp add: and_then_def)

lemma and_then_Inr [simp]: "and_then (Inr v) f = f v"
  by (simp add: and_then_def)

lemma and_then_eq_Inr: "and_then m f = Inr y \<longleftrightarrow> (\<exists>x. m = Inr x \<and> f x = Inr y)"
  by (cases m) simp_all

lemma and_then_eq_Inl:
  "and_then m f = Inl e \<longleftrightarrow> m = Inl e \<or> (\<exists>x. m = Inr x \<and> f x = Inl e)"
  by (cases m) simp_all

lemma untyped_Inr [simp]: "untyped (Inr v)"
  by (simp add: untyped_def)

lemma untyped_Inl [simp]: "untyped (Inl e) \<longleftrightarrow> \<not> typed_error e"
  by (simp add: untyped_def)

lemma untyped_and_then: "untyped m \<Longrightarrow> (\<And>x. untyped (f x)) \<Longrightarrow> untyped (and_then m f)"
  by (cases m) simp_all

lemma untyped_subscript [simp]: "untyped (subscript x k)"
  by (cases x) (simp_all split: option.splits)

lemma untyped_index0 [simp]: "untyped (index0 x)"
  by (induction x rule: index0.induct) simp_all

lemma untyped_iterate [simp]: "untyped (iterate x)"
  by (cases x) simp_all

lemma untyped_escape [simp]: "untyped (escape_html_tags_or_none x)"
  by (cases x) simp_all

lemma untyped_validate_int [simp]: "untyped (validate_int x)"
  by (cases x) (simp_all split: option.splits)

lemma untyped_validate_str [simp]: "untyped (validate_str x)"
  by (cases x) (simp_all split: option.splits)

lemma untyped_validate_optional_str [simp]: "untyped (validate_optional_str x)"
  by (cases x) (simp_all split: option.splits)

lemma untyped_validate_strs [simp]: "untyped (validate_strs xs)"
  by (induction xs) (simp_all add: untyped_and_then)

lemma untyped_validate_list_str [simp]: "untyped (validate_list_str x)"
  by (cases x) simp_all

lemma untyped_TitlePreview_init [simp]: "untyped (TitlePreview_init a b c d e f g h i)"
  unfolding TitlePreview_init_def by (intro untyped_and_then) simp_all

lemma untyped_TitleRelation_init [simp]: "untyped (TitleRelation_init a b c d e f g h i j)"
  unfolding TitleRelation_init_def by (intro untyped_and_then) simp_all

lemma untyped_preview_from [simp]: "untyped (preview_from a data title)"
  unfolding preview_from_def by (intro untyped_and_then) simp_all

lemma untyped_preview_of [simp]: "untyped (preview_of data)"
  unfolding preview_of_def by (intro untyped_and_then) simp_all

lemma untyped_relation_of_edge [simp]: "untyped (relation_of_edge edge)"
  unfolding relation_of_edge_def by (intro untyped_and_then) simp_all

lemma untyped_relations_loop [simp]: "untyped (relations_loop edges acc)"
  by (induction edges arbitrary: acc) (simp_all add: untyped_and_then)

lemma untyped_response_json [simp]: "untyped (response_json response)"
  by (simp add: response_json_def split: option.splits)

lemma untyped_data_Media [simp]: "untyped (data_Media result)"
  unfolding data_Media_def by (intro untyped_and_then) simp_all

lemma untyped_data_Page_media [simp]: "untyped (data_Page_media result)"
  unfolding data_Page_media_def by (intro untyped_and_then) simp_all

lemma untyped_relation_edges [simp]: "untyped (relation_edges result)"
  unfolding relation_edges_def by (intro untyped_and_then) simp_all

lemma response_json_Inr: "response_json response = Inr result \<longleftrightarrow> body_json response = Some result"
  by (simp add: response_json_def split: option.splits)

subsection \<open>Conversions of the constructor\<close>

lemma validate_int_conversions:
  "validate_int (JInt 30002) = Inr 30002"
  "validate_int (JStr ''30002'') = Inr 30002"
  "validate_int (JStr '' -1_000 '') = Inr (- 1000)"
  "validate_int (JStr ''1.5'') = Inl ValidationError"
  "validate_int (JBool True) = Inr 1"
  "validate_int (JFloat \<lparr> float_truth = True, float_int = Some 1, float_str = ''1.5'' \<rparr>) = Inr 1"
  "validate_int JNull = Inl ValidationError"
  by (simp_all add: python_int_def py_isspace_def digit_value_def)

lemma validate_str_conversions:
  "validate_str (JStr ''MANGA'') = Inr ''MANGA''"
  "validate_str (JInt 7) = Inr ''7''"
  "validate_str (JInt (- 12)) = Inr ''-12''"
  "validate_str (JBool False) = Inr ''False''"
  "validate_str (JFloat \<lparr> float_truth = True, float_int = Some 1, float_str = ''1.5'' \<rparr>) = Inr ''1.5''"
  "validate_str JNull = Inl ValidationError"
  "validate_optional_str JNull = Inr None"
  "validate_optional_str (JInt 5) = Inr (Some ''5'')"
  "validate_list_str (JList [JInt 1, JStr ''Drama'']) = Inr [''1'', ''Drama'']"
  "validate_list_str (JList [JNull]) = Inl ValidationError"
  "validate_list_str (JStr ''Drama'') = Inl ValidationError"
  by (simp_all add: python_str_def)

subsection \<open>What each operation returns, by the upstream's answer\<close>

lemma fst_send_request_to_source:
  "fst (send_request_to_source post query variables s) =
     (case post \<lparr> req_url = source_url, req_query = query, req_variables = variables \<rparr> of
        Inl e \<Rightarrow> Inl e
      | Inr response \<Rightarrow>
          if status response \<ge> 500 then Inl (ServerError (body_text response)) else Inr response)"
  by (simp add: send_request_to_source_def split: prod.splits sum.splits)

lemma fst_title_preview_by_name:
  "fst (title_preview_by_name post name (Some tf) s) =
     (case post \<lparr> req_url = source_url, req_query = preview_by_name_query (format_value tf),
                  req_variables = [(''search'', JStr name)] \<rparr> of
        Inl e \<Rightarrow> Inl e
      | Inr response \<Rightarrow>
          if status response \<ge> 500 then Inl (ServerError (body_text response))
          else if status response = 404 then Inl (TitleNotFound ''Title with this name not found!'')
          else preview_by_name_result response)"
  using fst_send_request_to_source
          [of post "preview_by_name_query (format_value tf)" "[(''search'', JStr name)]" s]
  by (auto simp add: title_preview_by_name_def split: prod.splits sum.splits)

lemma fst_title_preview_by_id:
  "fst (title_preview_by_id post title_id (Some tf) s) =
     (case post \<lparr> req_url = source_url, req_query = preview_by_id_query (format_value tf),
                  req_variables = [(''id'', JInt title_id)] \<rparr> of
        Inl e \<Rightarrow> Inl e
      | Inr response \<Rightarrow>
          if status response \<ge> 500 then Inl (ServerError (body_text response))
          else if status response = 404 then Inl (TitleNotFound ''Title with this name not found!'')
          else preview_by_id_result title_id response)"
  using fst_send_request_to_source
          [of post "preview_by_id_query (format_value tf)" "[(''id'', JInt title_id)]" s]
  by (auto simp add: title_preview_by_id_def split: prod.splits sum.splits)

lemma fst_title_preview_page_by_name:
  "fst (title_preview_page_by_name post page name (Some tf) s) =
     (case post \<lparr> req_url = source_url,
                  req_query = preview_page_by_name_query (format_value tf),
                  req_variables = [(''page'', JInt page), (''search'', JStr name)] \<rparr> of
        Inl e \<Rightarrow> Inl e
      | Inr response \<Rightarrow>
          if status response \<ge> 500 then Inl (ServerError (body_text response))
          else preview_page_result response)"
  using fst_send_request_to_source
          [of post "preview_page_by_name_query (format_value tf)"
              "[(''page'', JInt page), (''search'', JStr name)]" s]
  by (auto simp add: title_preview_page_by_name_def split: prod.splits sum.splits)

lemma fst_title_relations_by_id:
  "fst (title_relations_by_id post title_id s) =
     (case post \<lparr> req_url = source_url, req_query = relations_by_id_query,
                  req_variables = [(''id'', JInt title_id)] \<rparr> of
        Inl e \<Rightarrow> Inl e
      | Inr response \<Rightarrow>
          if status response \<ge> 500 then Inl (ServerError (body_text response))
          else if status response = 404 then Inl (TitleNotFound ''Title with this id not found!'')
          else relations_result response)"
  using fst_send_request_to_source [of post relations_by_id_query "[(''id'', JInt title_id)]" s]
  by (auto simp add: title_relations_by_id_def split: prod.splits sum.splits)

lemma fst_title_preview_None:
  "fst (title_preview_by_name post name None s) = Inl AttributeError"
  "fst (title_preview_by_id post title_id None s) = Inl AttributeError"
  "fst (title_preview_page_by_name post page name None s) = Inl AttributeError"
  by (simp_all add: title_preview_by_name_def title_preview_by_id_def
        title_preview_page_by_name_def)

lemma fst_preview_by_name_reply:
  "fst (title_preview_by_name (reply response) name (Some tf) s) =
     (if status response \<ge> 500 then Inl (ServerError (body_text response))
      else if status response = 404 then Inl (TitleNotFound ''Title with this name not found!'')
      else preview_by_name_result response)"
  by (simp add: fst_title_preview_by_name reply_def)

lemma fst_preview_by_id_reply:
  "fst (title_preview_by_id (reply response) title_id (Some tf) s) =
     (if status response \<ge> 500 then Inl (ServerError (body_text response))
      else if status response = 404 then Inl (TitleNotFound ''Title with this name not found!'')
      else preview_by_id_result title_id response)"
  by (simp add: fst_title_preview_by_id reply_def)

lemma fst_preview_page_reply:
  "fst (title_preview_page_by_name (reply response) page name (Some tf) s) =
     (if status response \<ge> 500 then Inl (ServerError (body_text response))
      else preview_page_result response)"
  by (simp add: fst_title_preview_page_by_name reply_def)

lemma fst_relations_reply:
  "fst (title_relations_by_id (reply response) title_id s) =
     (if status response \<ge> 500 then Inl (ServerError (body_text response))
      else if status response = 404 then Inl (TitleNotFound ''Title with this id not found!'')
      else relations_result response)"
  by (simp add: fst_title_relations_by_id reply_def)

lemmas fst_reply =
  fst_preview_by_name_reply fst_preview_by_id_reply fst_preview_page_reply fst_relations_reply

lemma preview_from_id:
  "preview_from a data title = Inr p \<Longrightarrow> validate_int a = Inr (id_field p)"
  unfolding preview_from_def TitlePreview_init_def
  by (auto simp add: and_then_eq_Inr)

lemma example_media_preview:
  "preview_of example_media =
     Inr \<lparr> id_field = 30002, english_name = Some ''Berserk &lt;Deluxe&gt;'',
           romaji_name = Some ''Berserk'', native_name = None, title_format = ''MANGA'',
           url = ''https://anilist.co/manga/30002'', banner_image_url = None,
           description = Some ''&lt;i&gt;Guts&lt;/i&gt; &amp; the Band of the Hawk'',
           genres = [''Action'', ''Drama''] \<rparr>"
  by (simp add: preview_of_def preview_from_def TitlePreview_init_def example_media_def
        escape_html_tags_def)

subsection \<open>Status 404\<close>

text \<open>
  Claim C2. When the upstream answers with status 404, lookup by name, lookup by id and
  lookup of relations by id each raise \<^verbatim>\<open>TitleNotFound\<close>: no value is returned and no other
  exception is raised. (The format filter is present, so that a request is sent at all.)
\<close>

theorem status_404_raises_TitleNotFound:
  assumes "status response = 404"
  shows "fst (title_preview_by_name (reply response) name (Some tf) s)
           = Inl (TitleNotFound ''Title with this name not found!'')
       \<and> fst (title_preview_by_id (reply response) title_id (Some tf) s)
           = Inl (TitleNotFound ''Title with this name not found!'')
       \<and> fst (title_relations_by_id (reply response) title_id s)
           = Inl (TitleNotFound ''Title with this id not found!'')"
  using assms by (simp add: fst_reply)

theorem status_404_raises_TitleNotFound_witness:
  "status (media_response 404 JNull) = 404
   \<and> fst (title_preview_by_name (reply (media_response 404 JNull)) ''Berserk''
            (Some example_format) fresh_client)
       = Inl (TitleNotFound ''Title with this name not found!'')
   \<and> fst (title_preview_by_id (reply (media_response 404 JNull)) 30002
            (Some example_format) fresh_client)
       = Inl (TitleNotFound ''Title with this name not found!'')
   \<and> fst (title_relations_by_id (reply (media_response 404 JNull)) 30002 fresh_client)
       = Inl (TitleNotFound ''Title with this id not found!'')"
proof -
  have h: "status (media_response 404 JNull) = 404"
    by (simp add: media_response_def)
  show ?thesis
    using h status_404_raises_TitleNotFound
            [OF h, of "''Berserk''" example_format fresh_client 30002]
    by simp
qed

subsection \<open>Status 500 and above\<close>

text \<open>
  Claim C3. When the upstream answers with a status of 500 or more, each of the four
  query operations raises \<^verbatim>\<open>ServerError\<close> carrying the text of the response body: no value
  is returned and \<^verbatim>\<open>TitleNotFound\<close> is not raised.
\<close>

theorem status_5xx_raises_ServerError:
  assumes "status response \<ge> 500"
  shows "fst (title_preview_by_name (reply response) name (Some tf) s)
           = Inl (ServerError (body_text response))
       \<and> fst (title_preview_by_id (reply response) title_id (Some tf) s)
           = Inl (ServerError (body_text response))
       \<and> fst (title_preview_page_by_name (reply response) page name (Some tf) s)
           = Inl (ServerError (body_text response))
       \<and> fst (title_relations_by_id (reply response) title_id s)
           = Inl (ServerError (body_text response))"
  using assms by (simp add: fst_reply)

theorem status_5xx_raises_ServerError_witness:
  "status bad_gateway \<ge> 500
   \<and> fst (title_preview_by_name (reply bad_gateway) ''Berserk'' (Some example_format)
            fresh_client) = Inl (ServerError ''Bad Gateway'')
   \<and> fst (title_preview_by_id (reply bad_gateway) 30002 (Some example_format)
            fresh_client) = Inl (ServerError ''Bad Gateway'')
   \<and> fst (title_preview_page_by_name (reply bad_gateway) 1 ''Berserk'' (Some example_format)
            fresh_client) = Inl (ServerError ''Bad Gateway'')
   \<and> fst (title_relations_by_id (reply bad_gateway) 30002 fresh_client)
       = Inl (ServerError ''Bad Gateway'')"
proof -
  have h: "status bad_gateway \<ge> 500"
    by (simp add: bad_gateway_def)
  have t: "body_text bad_gateway = ''Bad Gateway''"
    by (simp add: bad_gateway_def)
  show ?thesis
    using h status_5xx_raises_ServerError
            [OF h, of "''Berserk''" example_format fresh_client 30002 1]
    by (simp add: t)
qed

subsection \<open>The identifier of a preview\<close>

text \<open>
  Claim C4. Whenever lookup by id returns a preview, the preview's id is the identifier
  the caller passed, whatever the upstream answered: the id is not read from the body.
\<close>

theorem preview_by_id_keeps_caller_id:
  assumes "fst (title_preview_by_id post title_id title_format' s) = Inr p"
  shows "id_field p = title_id"
proof (cases title_format')
  case None
  with assms show ?thesis by (simp add: fst_title_preview_None)
next
  case (Some tf)
  with assms obtain response where "preview_by_id_result title_id response = Inr p"
    by (auto simp add: fst_title_preview_by_id split: sum.splits if_splits)
  then obtain data title where "preview_from (JInt title_id) data title = Inr p"
    by (auto simp add: preview_by_id_result_def and_then_eq_Inr)
  from preview_from_id [OF this] show ?thesis by simp
qed

lemma example_preview_by_id:
  "fst (title_preview_by_id (reply (media_response 200 example_media)) 7 (Some example_format)
          fresh_client) =
     Inr \<lparr> id_field = 7, english_name = Some ''Berserk &lt;Deluxe&gt;'',
           romaji_name = Some ''Berserk'', native_name = None, title_format = ''MANGA'',
           url = ''https://anilist.co/manga/30002'', banner_image_url = None,
           description = Some ''&lt;i&gt;Guts&lt;/i&gt; &amp; the Band of the Hawk'',
           genres = [''Action'', ''Drama''] \<rparr>"
  by (simp add: fst_reply media_response_def preview_by_id_result_def response_json_def
        data_Media_def preview_from_def TitlePreview_init_def example_media_def
        escape_html_tags_def)

theorem preview_by_id_keeps_caller_id_witness:
  "(\<exists>p. fst (title_preview_by_id (reply (media_response 200 example_media)) 7
             (Some example_format) fresh_client) = Inr p \<and> id_field p = 7)
   \<and> subscript example_media ''id'' = Inr (JInt 30002)"
proof -
  obtain p where p: "fst (title_preview_by_id (reply (media_response 200 example_media)) 7
             (Some example_format) fresh_client) = Inr p"
    using example_preview_by_id by blast
  from preview_by_id_keeps_caller_id [OF p] p show ?thesis
    by (auto simp add: example_media_def)
qed

lemma preview_of_media_with_id:
  "preview_of (media_with_id a) =
     and_then (validate_int a) (\<lambda>v_id.
       Inr \<lparr> id_field = v_id, english_name = None, romaji_name = Some ''Berserk'',
             native_name = None, title_format = ''MANGA'',
             url = ''https://anilist.co/manga/30002'', banner_image_url = None,
             description = None, genres = [] \<rparr>)"
  by (simp add: preview_of_def preview_from_def TitlePreview_init_def media_with_id_def
        escape_html_tags_def)

lemma python_int_30002: "python_int ''30002'' = Some 30002"
  by (simp add: python_int_def py_isspace_def digit_value_def)

lemma example_preview_by_name:
  "fst (title_preview_by_name (reply (media_response 200 media)) ''Berserk''
          (Some example_format) fresh_client) = preview_of media"
  by (simp add: fst_reply media_response_def preview_by_name_result_def response_json_def
        data_Media_def)

text \<open>
  Claim C9, as amended. Whenever lookup by name returns a preview, the body of the
  response decodes to JSON with a media record at \<^verbatim>\<open>data.Media\<close> that has an \<^verbatim>\<open>id\<close> field,
  and if that field is an integer, it is the preview's id.
\<close>

theorem preview_by_name_id_from_body:
  assumes "fst (title_preview_by_name (reply response) name title_format' s) = Inr p"
  shows "\<exists>result data a. body_json response = Some result
           \<and> data_Media result = Inr data
           \<and> subscript data ''id'' = Inr a
           \<and> (\<forall>n. a = JInt n \<longrightarrow> id_field p = n)"
proof (cases title_format')
  case None
  with assms show ?thesis by (simp add: fst_title_preview_None)
next
  case (Some tf)
  with assms have "preview_by_name_result response = Inr p"
    by (auto simp add: fst_reply split: if_splits)
  then obtain result data title a where
    r: "response_json response = Inr result" "data_Media result = Inr data"
       "subscript data ''id'' = Inr a" "preview_from a data title = Inr p"
    by (auto simp add: preview_by_name_result_def preview_of_def and_then_eq_Inr)
  from preview_from_id [OF r(4)] have "\<forall>n. a = JInt n \<longrightarrow> id_field p = n"
    by auto
  with r show ?thesis
    by (auto simp add: response_json_Inr)
qed

theorem preview_by_name_id_from_body_witness:
  "\<exists>p. fst (title_preview_by_name (reply (media_response 200 example_media)) ''Berserk''
            (Some example_format) fresh_client) = Inr p
       \<and> subscript example_media ''id'' = Inr (JInt 30002)
       \<and> id_field p = 30002"
proof -
  obtain p where p: "fst (title_preview_by_name (reply (media_response 200 example_media))
             ''Berserk'' (Some example_format) fresh_client) = Inr p"
    using example_preview_by_name [of example_media] example_media_preview by simp
  have b: "body_json (media_response 200 example_media)
             = Some (JObj [(''data'', JObj [(''Media'', example_media)])])"
    by (simp add: media_response_def)
  have m: "data_Media (JObj [(''data'', JObj [(''Media'', example_media)])]) = Inr example_media"
    by (simp add: data_Media_def)
  have i: "subscript example_media ''id'' = Inr (JInt 30002)"
    by (simp add: example_media_def)
  from preview_by_name_id_from_body [OF p] b m i have "id_field p = 30002"
    by auto
  with p i show ?thesis by blast
qed

text \<open>
  The claim as it is written fails when the \<^verbatim>\<open>id\<close> field of the media record is not an
  integer. With \<^verbatim>\<open>true\<close> there, the lookup returns a preview whose id is 1; with the
  string \<^verbatim>\<open>30002\<close> there, a preview whose id is the integer 30002. In both cases the id
  returned is the constructor's conversion of the field, not the field.
\<close>

theorem preview_by_name_id_counterexample:
  "subscript (media_with_id (JBool True)) ''id'' = Inr (JBool True)
   \<and> JBool True \<noteq> JInt 1
   \<and> fst (title_preview_by_name (reply (media_response 200 (media_with_id (JBool True))))
            ''Berserk'' (Some example_format) fresh_client) =
       Inr \<lparr> id_field = 1, english_name = None, romaji_name = Some ''Berserk'',
             native_name = None, title_format = ''MANGA'',
             url = ''https://anilist.co/manga/30002'', banner_image_url = None,
             description = None, genres = [] \<rparr>
   \<and> subscript (media_with_id (JStr ''30002'')) ''id'' = Inr (JStr ''30002'')
   \<and> JStr ''30002'' \<noteq> JInt 30002
   \<and> fst (title_preview_by_name (reply (media_response 200 (media_with_id (JStr ''30002''))))
            ''Berserk'' (Some example_format) fresh_client) =
       Inr \<lparr> id_field = 30002, english_name = None, romaji_name = Some ''Berserk'',
             native_name = None, title_format = ''MANGA'',
             url = ''https://anilist.co/manga/30002'', banner_image_url = None,
             description = None, genres = [] \<rparr>"
proof -
  have i: "subscript (media_with_id a) ''id'' = Inr a" for a
    by (simp add: media_with_id_def)
  show ?thesis
    by (simp add: i example_preview_by_name preview_of_media_with_id python_int_30002)
qed

subsection \<open>The session\<close>

lemma store_new_session_eq:
  "store_new_session s =
     (length (heap s),
      s\<lparr> heap := heap s @ [\<lparr> closed = False, close_calls = 0 \<rparr>],
         session_attr := Some (length (heap s)) \<rparr>)"
  by (simp add: store_new_session_def get_new_session_def)

lemma session_result_open:
  "\<not> closed (heap (snd (session s)) ! fst (session s))
   \<and> session_attr (snd (session s)) = Some (fst (session s))"
  by (simp add: session_def store_new_session_eq split: option.splits)

lemma session_again: "session (snd (session s)) = session s"
proof -
  obtain a s' where r: "session s = (a, s')"
    by (cases "session s")
  with session_result_open [of s] have "\<not> closed (heap s' ! a)" "session_attr s' = Some a"
    by simp_all
  then have "session s' = (a, s')"
    by (simp add: session_def)
  with r show ?thesis by simp
qed

lemma accesses_same:
  "accesses (Suc n) s = (replicate (Suc n) (fst (session s)), snd (session s))"
proof (induction n arbitrary: s)
  case 0
  show ?case by (simp split: prod.splits)
next
  case (Suc n)
  obtain a s' where r: "session s = (a, s')"
    by (cases "session s")
  from session_again [of s] r have again: "session s' = (a, s')"
    by simp
  have "accesses (Suc (Suc n)) s = (a # fst (accesses (Suc n) s'), snd (accesses (Suc n) s'))"
    using r by (simp split: prod.splits)
  also have "accesses (Suc n) s' = (replicate (Suc n) a, s')"
    using Suc.IH [of s'] again by simp
  finally show ?case using r by simp
qed

lemma wf_state_session: "wf_state s \<Longrightarrow> wf_state (snd (session s))"
  by (simp add: wf_state_def session_def store_new_session_eq split: option.splits)

text \<open>
  Claim C7. Reading the property \<^verbatim>\<open>session\<close>: on a client just constructed, a session
  is created, stored and returned. In any state (so at every later read, whatever
  happened in between): if a session is stored and is not closed, that session is
  returned and nothing changes; if none is stored, or the stored one is closed, a new
  session object is created, stored and returned, and it is another object than the
  one stored before. The session returned is always open and is the one stored
  afterwards, and reads that follow one another all return the session of the first.
\<close>

theorem session_lazy_reuse:
  "session (AnilistApi_init h) =
     (length h,
      \<lparr> heap = h @ [\<lparr> closed = False, close_calls = 0 \<rparr>], session_attr = Some (length h) \<rparr>)
   \<and> (\<forall>a. session_attr s = Some a \<and> \<not> closed (heap s ! a) \<longrightarrow> session s = (a, s))
   \<and> (session_attr s = None \<or> (\<exists>a. session_attr s = Some a \<and> closed (heap s ! a)) \<longrightarrow>
        session s =
          (length (heap s),
           s\<lparr> heap := heap s @ [\<lparr> closed = False, close_calls = 0 \<rparr>],
              session_attr := Some (length (heap s)) \<rparr>))
   \<and> (wf_state s \<longrightarrow> session_attr s \<noteq> Some (length (heap s)) \<and> wf_state (snd (session s)))
   \<and> \<not> closed (heap (snd (session s)) ! fst (session s))
   \<and> session_attr (snd (session s)) = Some (fst (session s))
   \<and> accesses (Suc n) s = (replicate (Suc n) (fst (session s)), snd (session s))"
proof -
  have first: "session (AnilistApi_init h) =
     (length h,
      \<lparr> heap = h @ [\<lparr> closed = False, close_calls = 0 \<rparr>], session_attr = Some (length h) \<rparr>)"
    by (simp add: session_def store_new_session_eq AnilistApi_init_def)
  have reuse: "\<forall>a. session_attr s = Some a \<and> \<not> closed (heap s ! a) \<longrightarrow> session s = (a, s)"
    by (simp add: session_def)
  have renew: "session_attr s = None \<or> (\<exists>a. session_attr s = Some a \<and> closed (heap s ! a)) \<longrightarrow>
        session s =
          (length (heap s),
           s\<lparr> heap := heap s @ [\<lparr> closed = False, close_calls = 0 \<rparr>],
              session_attr := Some (length (heap s)) \<rparr>)"
    by (auto simp add: session_def store_new_session_eq)
  have fresh: "wf_state s \<longrightarrow> session_attr s \<noteq> Some (length (heap s)) \<and> wf_state (snd (session s))"
    using wf_state_session [of s] by (auto simp add: wf_state_def)
  from first reuse renew fresh session_result_open [of s] accesses_same [of n s]
  show ?thesis by blast
qed

theorem session_lazy_reuse_witness:
  "session fresh_client =
     (0, \<lparr> heap = [\<lparr> closed = False, close_calls = 0 \<rparr>], session_attr = Some 0 \<rparr>)
   \<and> session (snd (session fresh_client)) = (0, snd (session fresh_client))
   \<and> wf_state (close (snd (session fresh_client)))
   \<and> session (close (snd (session fresh_client))) =
       (1, \<lparr> heap = [\<lparr> closed = True, close_calls = 1 \<rparr>, \<lparr> closed = False, close_calls = 0 \<rparr>],
             session_attr = Some 1 \<rparr>)
   \<and> accesses 3 (close (snd (session fresh_client))) =
       ([1, 1, 1],
        \<lparr> heap = [\<lparr> closed = True, close_calls = 1 \<rparr>, \<lparr> closed = False, close_calls = 0 \<rparr>],
          session_attr = Some 1 \<rparr>)"
proof -
  define s1 where "s1 = snd (session fresh_client)"
  define s2 where "s2 = close s1"
  have e1: "s1 = \<lparr> heap = [\<lparr> closed = False, close_calls = 0 \<rparr>], session_attr = Some 0 \<rparr>"
    by (simp add: s1_def fresh_client_def AnilistApi_init_def session_def store_new_session_eq)
  have e2: "s2 = \<lparr> heap = [\<lparr> closed = True, close_calls = 1 \<rparr>], session_attr = Some 0 \<rparr>"
    by (simp add: s2_def e1 close_def ClientSession_close_def)
  have a: "session_attr s1 = Some 0 \<and> \<not> closed (heap s1 ! 0)"
    by (simp add: e1)
  have b: "session_attr s2 = None \<or> (\<exists>a. session_attr s2 = Some a \<and> closed (heap s2 ! a))"
    by (simp add: e2)
  have w: "wf_state s2"
    by (simp add: e2 wf_state_def)
  have three: "replicate (Suc 2) (1::nat) = [1, 1, 1]"
    by (simp add: numeral_2_eq_2)
  from session_lazy_reuse [of "[]" s1 0] a
  have r1: "session fresh_client =
       (0, \<lparr> heap = [\<lparr> closed = False, close_calls = 0 \<rparr>], session_attr = Some 0 \<rparr>)"
    and r2: "session s1 = (0, s1)"
    by (simp_all add: fresh_client_def)
  from session_lazy_reuse [of "[]" s2 2] b
  have r3: "session s2 =
       (1, \<lparr> heap = [\<lparr> closed = True, close_calls = 1 \<rparr>, \<lparr> closed = False, close_calls = 0 \<rparr>],
             session_attr = Some 1 \<rparr>)"
    and r4: "accesses (Suc 2) s2 = (replicate (Suc 2) (fst (session s2)), snd (session s2))"
    by (simp_all add: e2)
  have r5: "accesses 3 s2 =
       ([1, 1, 1],
        \<lparr> heap = [\<lparr> closed = True, close_calls = 1 \<rparr>, \<lparr> closed = False, close_calls = 0 \<rparr>],
          session_attr = Some 1 \<rparr>)"
    using r4 r3 three by (simp add: eval_nat_numeral)
  from r1 r2 w r3 r5 show ?thesis
    unfolding s1_def s2_def by blast
qed

subsection \<open>Closing\<close>

lemma close_None: "session_attr s = None \<Longrightarrow> close s = s"
  by (simp add: close_def)

lemma close_closed: "session_attr s = Some a \<Longrightarrow> closed (heap s ! a) \<Longrightarrow> close s = s"
  by (simp add: close_def)

lemma close_open:
  "session_attr s = Some a \<Longrightarrow> \<not> closed (heap s ! a) \<Longrightarrow>
   close s = s\<lparr> heap := (heap s)[a := \<lparr> closed = True, close_calls = Suc (close_calls (heap s ! a)) \<rparr>] \<rparr>"
  by (simp add: close_def ClientSession_close_def)

lemma close_close: "close (close s) = close s"
proof (cases "session_attr s")
  case None
  then show ?thesis by (simp add: close_None)
next
  case (Some a)
  show ?thesis
  proof (cases "closed (heap s ! a)")
    case True
    with Some show ?thesis by (simp add: close_closed)
  next
    case False
    note open_now = close_open [OF Some False]
    show ?thesis
    proof (cases "a < length (heap s)")
      case True
      with open_now Some have "session_attr (close s) = Some a" "closed (heap (close s) ! a)"
        by simp_all
      then show ?thesis by (rule close_closed)
    next
      case False
      with open_now have "close s = s" by (simp add: list_update_beyond not_less)
      then show ?thesis by simp
    qed
  qed
qed

lemma close_calls_close:
  "close_calls (heap (close s) ! b) \<le> Suc (close_calls (heap s ! b))"
proof (cases "session_attr s")
  case None
  then show ?thesis by (simp add: close_None)
next
  case (Some a)
  show ?thesis
  proof (cases "closed (heap s ! a)")
    case True
    with Some show ?thesis by (simp add: close_closed)
  next
    case False
    from close_open [OF Some False] show ?thesis
      by (cases "a < length (heap s)") (simp_all add: nth_list_update list_update_beyond not_less)
  qed
qed

text \<open>
  Claim C8. \<^verbatim>\<open>close()\<close> is idempotent. It has no raising branch. A second call after a
  first changes nothing at all; a call when no session was ever stored, or when the
  stored session is already closed, changes nothing either. After a call the stored
  session, if there is one, is closed. Over two calls in a row the session's own
  \<^verbatim>\<open>close()\<close> is called at most once on any session object, and the stored reference
  stays what it was.
\<close>

theorem close_idempotent:
  "close (close s) = close s
   \<and> (session_attr s = None \<longrightarrow> close s = s)
   \<and> (\<forall>a. session_attr s = Some a \<and> closed (heap s ! a) \<longrightarrow> close s = s)
   \<and> (\<forall>a. session_attr s = Some a \<and> a < length (heap s) \<longrightarrow> closed (heap (close s) ! a))
   \<and> (\<forall>b. close_calls (heap (close (close s)) ! b) \<le> Suc (close_calls (heap s ! b)))
   \<and> session_attr (close (close s)) = session_attr s"
proof -
  have after: "\<forall>a. session_attr s = Some a \<and> a < length (heap s) \<longrightarrow> closed (heap (close s) ! a)"
    by (simp add: close_def ClientSession_close_def)
  have attr: "session_attr (close s) = session_attr s"
    by (simp add: close_def ClientSession_close_def split: option.splits)
  from after attr close_close [of s] close_calls_close [of s] show ?thesis
    by (auto simp add: close_None close_closed)
qed

theorem close_idempotent_witness:
  "close fresh_client = fresh_client
   \<and> close (close fresh_client) = fresh_client
   \<and> close (snd (session fresh_client)) =
       \<lparr> heap = [\<lparr> closed = True, close_calls = 1 \<rparr>], session_attr = Some 0 \<rparr>
   \<and> close (close (snd (session fresh_client))) =
       \<lparr> heap = [\<lparr> closed = True, close_calls = 1 \<rparr>], session_attr = Some 0 \<rparr>"
proof -
  define s1 where "s1 = snd (session fresh_client)"
  have e1: "s1 = \<lparr> heap = [\<lparr> closed = False, close_calls = 0 \<rparr>], session_attr = Some 0 \<rparr>"
    by (simp add: s1_def fresh_client_def AnilistApi_init_def session_def store_new_session_eq)
  have n: "session_attr fresh_client = None"
    by (simp add: fresh_client_def AnilistApi_init_def)
  have c1: "close s1 = \<lparr> heap = [\<lparr> closed = True, close_calls = 1 \<rparr>], session_attr = Some 0 \<rparr>"
    by (simp add: e1 close_def ClientSession_close_def)
  from close_idempotent [of fresh_client] n
  have r1: "close fresh_client = fresh_client" "close (close fresh_client) = fresh_client"
    by simp_all
  from close_idempotent [of s1] c1
  have r2: "close (close s1) =
       \<lparr> heap = [\<lparr> closed = True, close_calls = 1 \<rparr>], session_attr = Some 0 \<rparr>"
    by simp
  from r1 c1 r2 show ?thesis
    unfolding s1_def by blast
qed

subsection \<open>Paged search\<close>

lemma preview_page_result_cases:
  "preview_page_result response =
     (case body_json response of
        None \<Rightarrow> Inl JSONDecodeError
      | Some result \<Rightarrow>
          (case data_Page_media result of
             Inl e \<Rightarrow> Inl e
           | Inr media \<Rightarrow>
               if truthy media then and_then (index0 media) preview_of
               else Inl (TitleNotFound ''Title not found!'')))"
  by (simp add: preview_page_result_def response_json_def split: option.splits sum.splits)

lemma untyped_first_preview: "untyped (and_then (index0 media) preview_of)"
  by (intro untyped_and_then) simp_all

lemma page_response_media:
  "and_then (response_json (page_response st media)) data_Page_media = Inr media"
  by (simp add: page_response_def response_json_def data_Page_media_def)

lemma preview_page_result_page_response:
  "preview_page_result (page_response st media) =
     (if truthy media then and_then (index0 media) preview_of
      else Inl (TitleNotFound ''Title not found!''))"
  by (simp add: preview_page_result_cases page_response_def data_Page_media_def)

lemma status_page_response [simp]: "status (page_response st media) = st"
  by (simp add: page_response_def)

lemma body_text_page_response [simp]: "body_text (page_response st media) = ''body''"
  by (simp add: page_response_def)

text \<open>
  Claim C5, as amended. Let the upstream answer the paged search with a status below 500
  and a body that decodes to JSON with a list at \<^verbatim>\<open>data.Page.media\<close>. If the list is
  empty, the operation raises \<^verbatim>\<open>TitleNotFound\<close>. If it is not, the outcome is that of
  building a preview from the first element of the list, and the other elements are not
  read: the preview when the element has the fields the constructor needs, the exception
  of the building otherwise.
\<close>

theorem page_media_empty_or_first:
  assumes "status response < 500"
    and "body_json response = Some result"
    and "data_Page_media result = Inr (JList media)"
  shows "(media = [] \<longrightarrow>
            fst (title_preview_page_by_name (reply response) page name (Some tf) s)
              = Inl (TitleNotFound ''Title not found!''))
       \<and> (\<forall>x xs. media = x # xs \<longrightarrow>
            fst (title_preview_page_by_name (reply response) page name (Some tf) s)
              = preview_of x)"
  using assms by (simp add: fst_preview_page_reply preview_page_result_cases)

theorem page_media_empty_or_first_witness:
  "fst (title_preview_page_by_name (reply (page_response 200 (JList []))) 1 ''Berserk''
          (Some example_format) fresh_client) = Inl (TitleNotFound ''Title not found!'')
   \<and> fst (title_preview_page_by_name
            (reply (page_response 200 (JList [example_media, JNull]))) 1 ''Berserk''
            (Some example_format) fresh_client) =
       Inr \<lparr> id_field = 30002, english_name = Some ''Berserk &lt;Deluxe&gt;'',
             romaji_name = Some ''Berserk'', native_name = None, title_format = ''MANGA'',
             url = ''https://anilist.co/manga/30002'', banner_image_url = None,
             description = Some ''&lt;i&gt;Guts&lt;/i&gt; &amp; the Band of the Hawk'',
             genres = [''Action'', ''Drama''] \<rparr>"
proof -
  let ?body = "\<lambda>media. JObj [(''data'', JObj [(''Page'', JObj [(''media'', media)])])]"
  have st: "status (page_response 200 media) < 500" for media
    by simp
  have js: "body_json (page_response 200 media) = Some (?body media)" for media
    by (simp add: page_response_def)
  have pm: "data_Page_media (?body media) = Inr media" for media
    by (simp add: data_Page_media_def)
  from page_media_empty_or_first [OF st js pm, of "[]" 1 "''Berserk''" example_format fresh_client]
  have r1: "fst (title_preview_page_by_name (reply (page_response 200 (JList []))) 1 ''Berserk''
          (Some example_format) fresh_client) = Inl (TitleNotFound ''Title not found!'')"
    by simp
  from page_media_empty_or_first [OF st js pm, of "[example_media, JNull]" 1 "''Berserk''"
         example_format fresh_client]
  have r2: "fst (title_preview_page_by_name
            (reply (page_response 200 (JList [example_media, JNull]))) 1 ''Berserk''
            (Some example_format) fresh_client) = preview_of example_media"
    by simp
  from r1 r2 show ?thesis
    by (simp add: example_media_preview)
qed

text \<open>
  The claim as it is written fails on two inputs. A response with status 503 whose body
  holds an empty media list makes the operation raise \<^verbatim>\<open>ServerError\<close>, not
  \<^verbatim>\<open>TitleNotFound\<close>. A response with status 200 whose media list is not empty, its first
  element being \<^verbatim>\<open>null\<close>, makes it raise a \<^verbatim>\<open>TypeError\<close>: no preview is returned.
\<close>

theorem page_media_claim_counterexample:
  "and_then (response_json (page_response 503 (JList []))) data_Page_media = Inr (JList [])
   \<and> fst (title_preview_page_by_name (reply (page_response 503 (JList []))) 1 ''Berserk''
            (Some example_format) fresh_client) = Inl (ServerError ''body'')
   \<and> and_then (response_json (page_response 200 (JList [JNull]))) data_Page_media
       = Inr (JList [JNull])
   \<and> fst (title_preview_page_by_name (reply (page_response 200 (JList [JNull]))) 1 ''Berserk''
            (Some example_format) fresh_client) = Inl TypeError"
  by (simp add: page_response_media fst_preview_page_reply preview_page_result_page_response
        preview_of_def)

text \<open>
  Claim C10, as amended. The paged search does not test for status 404. On a response
  with status 404 its outcome is that of lines 187-206, which read the body only, and is
  the same as on a response with status 200 and the same body. It raises \<^verbatim>\<open>TitleNotFound\<close>
  exactly when the body decodes to JSON and the value at \<^verbatim>\<open>data.Page.media\<close> is false in
  Python's sense: an empty list, but also \<^verbatim>\<open>null\<close>, \<^verbatim>\<open>false\<close>, a zero, an empty string or
  an empty object. Every other failure is an exception that is neither \<^verbatim>\<open>TitleNotFound\<close> nor
  \<^verbatim>\<open>ServerError\<close>.
\<close>

theorem page_ignores_404:
  assumes "status response = 404"
  shows "fst (title_preview_page_by_name (reply response) page name (Some tf) s)
           = preview_page_result response
       \<and> fst (title_preview_page_by_name (reply response) page name (Some tf) s)
           = fst (title_preview_page_by_name (reply (response\<lparr> status := 200 \<rparr>)) page name
                    (Some tf) s)
       \<and> ((\<exists>m. fst (title_preview_page_by_name (reply response) page name (Some tf) s)
                  = Inl (TitleNotFound m))
            \<longleftrightarrow> (\<exists>result media. body_json response = Some result
                    \<and> data_Page_media result = Inr media \<and> \<not> truthy media))
       \<and> (\<forall>e. fst (title_preview_page_by_name (reply response) page name (Some tf) s) = Inl e
                \<longrightarrow> e = TitleNotFound ''Title not found!'' \<or> \<not> typed_error e)"
proof -
  let ?r = "fst (title_preview_page_by_name (reply response) page name (Some tf) s)"
  have body: "?r = preview_page_result response"
    using assms by (simp add: fst_preview_page_reply)
  have same: "?r = fst (title_preview_page_by_name (reply (response\<lparr> status := 200 \<rparr>)) page name
                    (Some tf) s)"
    using assms by (simp add: fst_preview_page_reply preview_page_result_cases)
  have later: "and_then (index0 media) preview_of \<noteq> Inl (TitleNotFound m)" for media m
    using untyped_first_preview [of media] by (cases "and_then (index0 media) preview_of") auto
  have path: "data_Page_media result \<noteq> Inl (TitleNotFound m)" for result m
    using untyped_data_Page_media [of result] by (cases "data_Page_media result") auto
  have iff: "(\<exists>m. ?r = Inl (TitleNotFound m))
            \<longleftrightarrow> (\<exists>result media. body_json response = Some result
                    \<and> data_Page_media result = Inr media \<and> \<not> truthy media)"
    unfolding body preview_page_result_cases
    using later path by (auto split: option.splits sum.splits if_splits)
  have other: "\<forall>e. ?r = Inl e \<longrightarrow> e = TitleNotFound ''Title not found!'' \<or> \<not> typed_error e"
  proof (intro allI impI)
    fix e assume e: "?r = Inl e"
    show "e = TitleNotFound ''Title not found!'' \<or> \<not> typed_error e"
    proof (cases "body_json response")
      case None
      with e body show ?thesis by (simp add: preview_page_result_cases)
    next
      case (Some result)
      show ?thesis
      proof (cases "data_Page_media result")
        case (Inl e')
        with Some e body have "e = e'" by (simp add: preview_page_result_cases)
        with Inl untyped_data_Page_media [of result] show ?thesis by simp
      next
        case (Inr media)
        show ?thesis
        proof (cases "truthy media")
          case True
          with Some Inr e body have "and_then (index0 media) preview_of = Inl e"
            by (simp add: preview_page_result_cases)
          with untyped_first_preview [of media] show ?thesis by simp
        next
          case False
          with Some Inr e body show ?thesis by (simp add: preview_page_result_cases)
        qed
      qed
    qed
  qed
  from body same iff other show ?thesis by blast
qed

theorem page_ignores_404_witness:
  "status (page_response 404 (JList [example_media])) = 404
   \<and> fst (title_preview_page_by_name (reply (page_response 404 (JList [example_media]))) 1
            ''Berserk'' (Some example_format) fresh_client) = preview_of example_media
   \<and> fst (title_preview_page_by_name (reply (page_response 404 (JList []))) 1
            ''Berserk'' (Some example_format) fresh_client)
       = Inl (TitleNotFound ''Title not found!'')
   \<and> fst (title_preview_page_by_name (reply (page_response 404 (JInt 5))) 1
            ''Berserk'' (Some example_format) fresh_client) = Inl TypeError"
proof -
  have st: "status (page_response 404 media) = 404" for media
    by simp
  note at_404 = page_ignores_404 [OF st, of _ 1 "''Berserk''" example_format fresh_client]
  from at_404 [of "JList [example_media]"]
  have r1: "fst (title_preview_page_by_name (reply (page_response 404 (JList [example_media]))) 1
            ''Berserk'' (Some example_format) fresh_client) = preview_of example_media"
    by (simp add: preview_page_result_page_response)
  from at_404 [of "JList []"]
  have r2: "fst (title_preview_page_by_name (reply (page_response 404 (JList []))) 1
            ''Berserk'' (Some example_format) fresh_client)
       = Inl (TitleNotFound ''Title not found!'')"
    by (simp add: preview_page_result_page_response)
  from at_404 [of "JInt 5"]
  have r3: "fst (title_preview_page_by_name (reply (page_response 404 (JInt 5))) 1
            ''Berserk'' (Some example_format) fresh_client) = Inl TypeError"
    by (simp add: preview_page_result_page_response)
  from st r1 r2 r3 show ?thesis by blast
qed

text \<open>
  The claim as it is written fails on a response with status 404 whose body holds
  \<^verbatim>\<open>null\<close> at \<^verbatim>\<open>data.Page.media\<close>: the operation raises \<^verbatim>\<open>TitleNotFound\<close>, and the parsed
  media value is not an empty list.
\<close>

theorem page_404_claim_counterexample:
  "and_then (response_json (page_response 404 JNull)) data_Page_media = Inr JNull
   \<and> JNull \<noteq> JList []
   \<and> fst (title_preview_page_by_name (reply (page_response 404 JNull)) 1 ''Berserk''
            (Some example_format) fresh_client) = Inl (TitleNotFound ''Title not found!'')"
  by (simp add: page_response_media fst_preview_page_reply preview_page_result_page_response)

subsection \<open>Relations\<close>

lemma relations_loop_Inr:
  "relations_loop edges acc = Inr rs \<longleftrightarrow>
     (\<exists>rs'. rs = acc @ rs' \<and> list_all2 (\<lambda>edge r. relation_of_edge edge = Inr r) edges rs')"
proof (induction edges arbitrary: acc)
  case Nil
  show ?case by auto
next
  case (Cons edge edges)
  show ?case
    by (auto simp add: and_then_eq_Inr Cons.IH list_all2_Cons1)
qed

lemma relations_loop_returns:
  "\<forall>edge \<in> set edges. \<exists>r. relation_of_edge edge = Inr r \<Longrightarrow>
   \<exists>rs. relations_loop edges acc = Inr rs"
proof (induction edges arbitrary: acc)
  case Nil
  show ?case by simp
next
  case (Cons edge edges)
  then obtain r where "relation_of_edge edge = Inr r"
    by auto
  with Cons show ?case by simp
qed

lemma relations_result_cases:
  "relations_result response =
     (case body_json response of
        None \<Rightarrow> Inl JSONDecodeError
      | Some result \<Rightarrow>
          (case relation_edges result of
             Inl e \<Rightarrow> Inl e
           | Inr edges \<Rightarrow> and_then (iterate edges) (\<lambda>items. relations_loop items [])))"
  by (simp add: relations_result_def response_json_def split: option.splits sum.splits)

lemma relations_response_edges:
  "and_then (response_json (relations_response st edges)) relation_edges = Inr edges"
  by (simp add: relations_response_def media_response_def response_json_def relation_edges_def
        data_Media_def)

lemma relations_result_relations_response:
  "relations_result (relations_response st edges) =
     and_then (iterate edges) (\<lambda>items. relations_loop items [])"
  by (simp add: relations_result_cases relations_response_def media_response_def
        relation_edges_def data_Media_def)

lemma status_relations_response [simp]: "status (relations_response st edges) = st"
  by (simp add: relations_response_def media_response_def)

lemma body_text_relations_response [simp]: "body_text (relations_response st edges) = ''body''"
  by (simp add: relations_response_def media_response_def)

lemma example_edge_relation:
  "relation_of_edge example_edge =
     Inr \<lparr> id_field = 30002, english_name = Some ''Berserk &lt;Deluxe&gt;'',
           romaji_name = Some ''Berserk'', native_name = None, title_format = ''MANGA'',
           url = ''https://anilist.co/manga/30002'', banner_image_url = None,
           description = Some ''<i>Guts</i> & the Band of the Hawk'',
           genres = [''Action'', ''Drama''], relation_type = ''SEQUEL'' \<rparr>"
  by (simp add: relation_of_edge_def TitleRelation_init_def example_edge_def example_media_def
        escape_html_tags_def)

lemma example_side_story_relation:
  "relation_of_edge example_side_story =
     Inr \<lparr> id_field = 41, english_name = None, romaji_name = Some ''Gaiden'',
           native_name = None, title_format = ''ONE_SHOT'',
           url = ''https://anilist.co/manga/41'', banner_image_url = None,
           description = None, genres = [], relation_type = ''SIDE_STORY'' \<rparr>"
  by (simp add: relation_of_edge_def TitleRelation_init_def example_side_story_def
        escape_html_tags_def)

lemma relation_description_raw:
  assumes "relation_of_edge edge = Inr r"
  shows "\<exists>node d. subscript edge ''node'' = Inr node
           \<and> subscript node ''description'' = Inr d
           \<and> validate_optional_str d = Inr (description r)"
  using assms unfolding relation_of_edge_def TitleRelation_init_def
  by (auto simp add: and_then_eq_Inr)

text \<open>
  Claim C6, as amended. Let the upstream answer the lookup of relations with a status
  below 500 other than 404 and a body that decodes to JSON with a list of \<open>N\<close> edges at
  \<^verbatim>\<open>data.Media.relations.edges\<close>. The operation returns a list exactly when every edge
  converts to a relation record, and the list returned then has exactly \<open>N\<close> records,
  the \<open>i\<close>-th built from the \<open>i\<close>-th edge. For zero edges it returns the empty list and
  raises nothing.
\<close>

theorem relations_follow_edges:
  assumes "status response < 500"
    and "status response \<noteq> 404"
    and "body_json response = Some result"
    and "relation_edges result = Inr (JList edges)"
  shows "(\<forall>rs. fst (title_relations_by_id (reply response) title_id s) = Inr rs \<longleftrightarrow>
            list_all2 (\<lambda>edge r. relation_of_edge edge = Inr r) edges rs)
       \<and> (\<forall>rs. fst (title_relations_by_id (reply response) title_id s) = Inr rs \<longrightarrow>
            length rs = length edges
            \<and> (\<forall>i < length edges. relation_of_edge (edges ! i) = Inr (rs ! i)))
       \<and> ((\<forall>edge \<in> set edges. \<exists>r. relation_of_edge edge = Inr r) \<longrightarrow>
            (\<exists>rs. fst (title_relations_by_id (reply response) title_id s) = Inr rs))
       \<and> (edges = [] \<longrightarrow> fst (title_relations_by_id (reply response) title_id s) = Inr [])"
proof -
  have r: "fst (title_relations_by_id (reply response) title_id s) = relations_loop edges []"
    using assms by (simp add: fst_relations_reply relations_result_cases)
  have a: "\<forall>rs. relations_loop edges [] = Inr rs \<longleftrightarrow>
            list_all2 (\<lambda>edge r. relation_of_edge edge = Inr r) edges rs"
    by (simp add: relations_loop_Inr)
  have b: "\<forall>rs. relations_loop edges [] = Inr rs \<longrightarrow>
            length rs = length edges
            \<and> (\<forall>i < length edges. relation_of_edge (edges ! i) = Inr (rs ! i))"
    using a by (simp add: list_all2_conv_all_nth)
  have c: "(\<forall>edge \<in> set edges. \<exists>r. relation_of_edge edge = Inr r) \<longrightarrow>
            (\<exists>rs. relations_loop edges [] = Inr rs)"
    using relations_loop_returns [of edges "[]"] by blast
  have d: "edges = [] \<longrightarrow> relations_loop edges [] = Inr []"
    by simp
  from a b c d show ?thesis
    unfolding r by blast
qed

theorem relations_follow_edges_witness:
  "fst (title_relations_by_id
          (reply (relations_response 200 (JList [example_edge, example_side_story]))) 30002
          fresh_client) =
     Inr [\<lparr> id_field = 30002, english_name = Some ''Berserk &lt;Deluxe&gt;'',
             romaji_name = Some ''Berserk'', native_name = None, title_format = ''MANGA'',
             url = ''https://anilist.co/manga/30002'', banner_image_url = None,
             description = Some ''<i>Guts</i> & the Band of the Hawk'',
             genres = [''Action'', ''Drama''], relation_type = ''SEQUEL'' \<rparr>,
          \<lparr> id_field = 41, english_name = None, romaji_name = Some ''Gaiden'',
             native_name = None, title_format = ''ONE_SHOT'',
             url = ''https://anilist.co/manga/41'', banner_image_url = None,
             description = None, genres = [], relation_type = ''SIDE_STORY'' \<rparr>]
   \<and> fst (title_relations_by_id (reply (relations_response 200 (JList []))) 30002
            fresh_client) = Inr []"
proof -
  let ?body = "\<lambda>edges. JObj [(''data'', JObj [(''Media'',
                  JObj [(''relations'', JObj [(''edges'', edges)])])])]"
  have st: "status (relations_response 200 edges) < 500" for edges
    by simp
  have nf: "status (relations_response 200 edges) \<noteq> 404" for edges
    by simp
  have js: "body_json (relations_response 200 edges) = Some (?body edges)" for edges
    by (simp add: relations_response_def media_response_def)
  have ed: "relation_edges (?body edges) = Inr edges" for edges
    by (simp add: relation_edges_def data_Media_def)
  from relations_follow_edges [OF st nf js ed, of "[example_edge, example_side_story]" 30002
         fresh_client]
  have r1: "fst (title_relations_by_id
          (reply (relations_response 200 (JList [example_edge, example_side_story]))) 30002
          fresh_client) =
     Inr [\<lparr> id_field = 30002, english_name = Some ''Berserk &lt;Deluxe&gt;'',
             romaji_name = Some ''Berserk'', native_name = None, title_format = ''MANGA'',
             url = ''https://anilist.co/manga/30002'', banner_image_url = None,
             description = Some ''<i>Guts</i> & the Band of the Hawk'',
             genres = [''Action'', ''Drama''], relation_type = ''SEQUEL'' \<rparr>,
          \<lparr> id_field = 41, english_name = None, romaji_name = Some ''Gaiden'',
             native_name = None, title_format = ''ONE_SHOT'',
             url = ''https://anilist.co/manga/41'', banner_image_url = None,
             description = None, genres = [], relation_type = ''SIDE_STORY'' \<rparr>]"
    by (simp add: example_edge_relation example_side_story_relation)
  from relations_follow_edges [OF st nf js ed, of "[]" 30002 fresh_client]
  have r2: "fst (title_relations_by_id (reply (relations_response 200 (JList []))) 30002
            fresh_client) = Inr []"
    by simp
  from r1 r2 show ?thesis by blast
qed

text \<open>
  The claim as it is written fails on two inputs. A response with status 404 whose body
  holds an empty list of edges makes the operation raise \<^verbatim>\<open>TitleNotFound\<close> instead of
  returning the empty list. A response with status 200 whose list of edges has one
  element, \<^verbatim>\<open>null\<close>, makes it raise a \<^verbatim>\<open>TypeError\<close> instead of returning one record.
\<close>

theorem relations_claim_counterexample:
  "and_then (response_json (relations_response 404 (JList []))) relation_edges = Inr (JList [])
   \<and> fst (title_relations_by_id (reply (relations_response 404 (JList []))) 30002 fresh_client)
       = Inl (TitleNotFound ''Title with this id not found!'')
   \<and> and_then (response_json (relations_response 200 (JList [JNull]))) relation_edges
       = Inr (JList [JNull])
   \<and> fst (title_relations_by_id (reply (relations_response 200 (JList [JNull]))) 30002
            fresh_client) = Inl TypeError"
  by (simp add: relations_response_edges fst_relations_reply relations_result_relations_response
        relation_of_edge_def)

subsection \<open>Escaping\<close>

lemma escape_example:
  "escape_html_tags ''<i>Guts</i> & the Band of the Hawk''
     = ''&lt;i&gt;Guts&lt;/i&gt; &amp; the Band of the Hawk''"
  by (simp add: escape_html_tags_def)

lemma preview_from_escaped:
  assumes "preview_from a data title = Inr p"
  shows "and_then (and_then (subscript title ''english'') escape_html_tags_or_none)
           validate_optional_str = Inr (english_name p)"
    and "and_then (and_then (subscript title ''romaji'') escape_html_tags_or_none)
           validate_optional_str = Inr (romaji_name p)"
    and "and_then (and_then (subscript title ''native'') escape_html_tags_or_none)
           validate_optional_str = Inr (native_name p)"
    and "and_then (and_then (subscript data ''description'') escape_html_tags_or_none)
           validate_optional_str = Inr (description p)"
  using assms unfolding preview_from_def TitlePreview_init_def
  by (auto simp add: and_then_eq_Inr)

lemma relation_names_escaped:
  assumes "relation_of_edge edge = Inr r"
  shows "\<exists>node title. subscript edge ''node'' = Inr node \<and> subscript node ''title'' = Inr title
           \<and> and_then (and_then (subscript title ''english'') escape_html_tags_or_none)
                validate_optional_str = Inr (english_name r)
           \<and> and_then (and_then (subscript title ''romaji'') escape_html_tags_or_none)
                validate_optional_str = Inr (romaji_name r)
           \<and> and_then (and_then (subscript title ''native'') escape_html_tags_or_none)
                validate_optional_str = Inr (native_name r)"
  using assms unfolding relation_of_edge_def TitleRelation_init_def
  by (auto simp add: and_then_eq_Inr)

text \<open>
  Claim C1 does not hold of the code: \<^verbatim>\<open>title_relations_by_id\<close> passes
  \<^verbatim>\<open>description=node["description"]\<close> to the constructor without escaping it (line 265),
  where the three preview operations pass \<^verbatim>\<open>escape_html_tags_or_none(data["description"])\<close>
  (lines 99, 149, 204). On a response with one edge whose node has the description
  \<^verbatim>\<open><i>Guts</i> & the Band of the Hawk\<close>, the relation returned carries that text as it
  is, markup included, while its names are escaped; the lookup by name of the same media
  record returns the description escaped.
\<close>

theorem relations_description_unescaped:
  "fst (title_relations_by_id (reply (relations_response 200 (JList [example_edge]))) 30002
          fresh_client) =
     Inr [\<lparr> id_field = 30002, english_name = Some ''Berserk &lt;Deluxe&gt;'',
             romaji_name = Some ''Berserk'', native_name = None, title_format = ''MANGA'',
             url = ''https://anilist.co/manga/30002'', banner_image_url = None,
             description = Some ''<i>Guts</i> & the Band of the Hawk'',
             genres = [''Action'', ''Drama''], relation_type = ''SEQUEL'' \<rparr>]
   \<and> escape_html_tags ''<i>Guts</i> & the Band of the Hawk''
       = ''&lt;i&gt;Guts&lt;/i&gt; &amp; the Band of the Hawk''
   \<and> fst (title_preview_by_name (reply (media_response 200 example_media)) ''Berserk''
            (Some example_format) fresh_client) =
       Inr \<lparr> id_field = 30002, english_name = Some ''Berserk &lt;Deluxe&gt;'',
             romaji_name = Some ''Berserk'', native_name = None, title_format = ''MANGA'',
             url = ''https://anilist.co/manga/30002'', banner_image_url = None,
             description = Some ''&lt;i&gt;Guts&lt;/i&gt; &amp; the Band of the Hawk'',
             genres = [''Action'', ''Drama''] \<rparr>"
  by (simp add: fst_relations_reply relations_result_relations_response example_edge_relation
        escape_example example_preview_by_name example_media_preview)

end
